theory Spec2Isabelle
  imports Main "HOL-Library.Sublist"
begin

section \<open>The webhook client of dialogflow-fulfillment.js\<close>

text \<open>
  A shallow embedding of class \<open>WebhookClient\<close> (src/dialogflow-fulfillment.js).
  A method that mutates \<open>this\<close> is a function from the client's state to a pair: the
  error it throws (\<open>None\<close> when it returns) and the state it leaves. Names follow the
  source; a name cannot end in an underscore here, so \<open>send_\<close> is \<open>send\<close>,
  \<open>responseMessages_\<close> is \<open>responseMessages\<close>, and so on; the fields \<open>request_\<close>,
  \<open>response_\<close> and \<open>locale\<close> are \<open>request'\<close>, \<open>response'\<close> and \<open>locale'\<close>. A method of
  \<open>this.client\<close>, the Version Adapter, is \<open>client_\<close> and its name.
\<close>

subsection \<open>JavaScript values and errors\<close>

datatype error = Error string | TypeError

text \<open>The values a property read can yield, as far as the code tests them.\<close>

datatype jsval = JSUndefined | JSNull | JSBool bool | JSNumber int | JSString string | JSObject

fun truthy :: "jsval \<Rightarrow> bool" where
  "truthy JSUndefined = False"
| "truthy JSNull = False"
| "truthy (JSBool b) = b"
| "truthy (JSNumber n) = (n \<noteq> 0)"
| "truthy (JSString s) = (s \<noteq> [])"
| "truthy JSObject = True"

text \<open>\<open>typeof v === 'string'\<close>\<close>

fun typeof_string :: "jsval \<Rightarrow> bool" where
  "typeof_string (JSString s) = True"
| "typeof_string v = False"

text \<open>
  \<open>s.slice(start)\<close>: a negative start counts from the end and is clamped at the
  beginning of the string, a start past the end gives the empty string. The start
  \<open>-0\<close> is \<open>0\<close>.
\<close>

definition slice :: "string \<Rightarrow> int \<Rightarrow> string" where
  "slice s start =
     (let len = int (length s);
          from = (if start < 0 then max (len + start) 0 else min start len)
      in drop (nat from) s)"

subsection \<open>Constants of response-builder\<close>

text \<open>
  \<open>PLATFORMS\<close> and \<open>SUPPORTED_RICH_MESSAGE_PLATFORMS\<close> are imported from
  response-builder, which is not among the sources: they are a parameter of the model.
  Section 6 of the spec has one platform identifier for each supported rich-message
  platform and one for "unspecified"; where a property needs Actions on Google to be
  a supported platform, it says so.
\<close>

record platforms =
  UNSPECIFIED :: string
  ACTIONS_ON_GOOGLE :: string
  SUPPORTED_RICH_MESSAGE_PLATFORMS :: "string list"

subsection \<open>Response elements\<close>

text \<open>
  Modelled from the spec: the response classes of response-builder (\<open>TextResponse\<close>,
  \<open>CardResponse\<close>, \<open>ImageResponse\<close>, \<open>SuggestionsResponse\<close>, \<open>PayloadResponse\<close>, all
  of them \<open>RichResponse\<close>) are absent; section 3 gives the variants and their fields. A
  platform tag is \<open>None\<close> when the element's \<open>platform\<close> property is undefined.
\<close>

type_synonym platform = "string option"

datatype response =
    Text string
  | Card string "string option" "string option" "(string \<times> string) list"
  | Image string
  | Suggestions platform "string list"
  | Payload platform string

fun isText :: "response \<Rightarrow> bool" where
  "isText (Text t) = True"
| "isText r = False"

text \<open>
  Modelled from the spec: \<open>SuggestionsResponse.addReply_\<close> (response-builder, absent)
  appends the reply to the element's reply list (section 4.2, merge-in-place). The
  caller passes \<open>replies[0]\<close>, which is undefined when the list is empty; a reply list
  holds strings (section 3), so the undefined reply is refused with an error. Only
  a Suggestions element has the method, and \<open>add\<close> calls it on no other.
\<close>

fun addReply :: "response \<Rightarrow> string option \<Rightarrow> error + response" where
  "addReply (Suggestions p rs) (Some reply) = Inr (Suggestions p (rs @ [reply]))"
| "addReply r None = Inl (Error ''Reply argument must be string'')"
| "addReply r (Some reply) = Inr r"

subsection \<open>The client's state\<close>

record Context =
  name :: string
  lifespanCount :: "int option"
  ctx_parameters :: "(string \<times> string) list"

text \<open>The argument of \<open>setContext\<close>: a string, an object (its name may be absent), or null/undefined.\<close>

record context_object =
  arg_name :: "string option"
  arg_lifespan :: "int option"
  arg_parameters :: "(string \<times> string) list"

datatype context_arg = ContextString string | ContextObject context_object | ContextNull

record event_object =
  event_name :: jsval
  event_parameters :: "(string \<times> string) list option"

text \<open>The argument of \<open>setFollowupEvent\<close>: a string, an object, or null/undefined.\<close>

datatype event_arg = EventString string | EventObject event_object | EventNull

text \<open>
  The request model the Version Adapter reads out of the payload. The wire layout is
  the adapter's own (section 6), so the payload's \<open>result\<close> or \<open>queryResult\<close> object is
  the record of the values the adapter extracts from it. A field of the payload is
  \<open>None\<close> when the payload has no such field, or holds null there (both are falsy);
  a field that is present holds an object, which is truthy.
\<close>

record request_data =
  rd_action :: "string option"
  rd_parameters :: "(string \<times> string) list"
  rd_contexts :: "Context list"
  rd_source :: "string option"
  rd_query :: "string option"
  rd_locale :: "string option"
  rd_session :: "string option"

record payload =
  result :: "request_data option"
  queryResult :: "request_data option"

record request =
  body :: payload

text \<open>
  The host's response handle (an Express response, outside the repository):
  \<open>status(x)\<close> stores \<open>x\<close> as the status and returns the handle, so that calls chain;
  \<open>sent\<close> is what was written to the response channel.
\<close>

datatype status_value = StatusCode nat | StatusText string

record wire_response =
  w_messages :: "response list"
  w_followupEvent :: "event_object option"
  w_contexts :: "Context option list"

record host_response =
  statusCode :: "status_value option"
  sent :: "wire_response list"

definition status :: "status_value \<Rightarrow> host_response \<Rightarrow> host_response" where
  "status v res = res\<lparr>statusCode := Some v\<rparr>"

record options =
  request :: "request option"
  response :: "host_response option"

text \<open>
  The fields of \<open>this\<close>. A null field is \<open>None\<close>; an entry of \<open>outgoingContexts\<close> is
  \<open>None\<close> when the array holds null there.
\<close>

record client =
  request' :: request
  response' :: host_response
  agentVersion :: "nat option"
  responseMessages :: "response list"
  followupEvent :: "event_object option"
  outgoingContexts :: "Context option list"
  action :: "string option"
  parameters :: "(string \<times> string) list option"
  contexts :: "Context list option"
  requestSource :: "string option"
  query :: "string option"
  locale' :: "string option"
  session :: "string option"

type_synonym result = "error option \<times> client"

subsection \<open>The Version Adapter\<close>

text \<open>
  Modelled from the spec: \<open>processRequest_\<close> of \<open>V1Agent\<close> and \<open>V2Agent\<close> (v1-agent.js and
  v2-agent.js are absent) populates the request model from the payload and does
  nothing else (sections 4.1, 4.5): version 1 reads \<open>result\<close>, version 2 \<open>queryResult\<close>.
\<close>

definition populate :: "request_data \<Rightarrow> client \<Rightarrow> client" where
  "populate d c =
     c\<lparr>action := rd_action d, parameters := Some (rd_parameters d),
       contexts := Some (rd_contexts d), requestSource := rd_source d,
       query := rd_query d, locale' := rd_locale d, session := rd_session d\<rparr>"

definition client_processRequest :: "client \<Rightarrow> client" where
  "client_processRequest c =
     (case (if agentVersion c = Some 2 then queryResult (body (request' c))
            else result (body (request' c))) of
        None \<Rightarrow> c
      | Some d \<Rightarrow> populate d c)"

text \<open>
  Modelled from the spec: \<open>addContext_\<close> of the Version Adapter (absent) appends the
  context to the outgoing set; version 1 stores it as given, version 2 first rewrites
  a bare short name into the session's path (section 4.3). The path layout is the wire
  format's: \<open>qualify\<close>, from the session and the name to the name stored, is a
  parameter. Version 2 reads the name of what it is given, which throws on null.
\<close>

definition client_addContext ::
  "(string option \<Rightarrow> string \<Rightarrow> string) \<Rightarrow> Context option \<Rightarrow> client \<Rightarrow> result" where
  "client_addContext qualify ctx c =
     (if agentVersion c = Some 2 then
        (case ctx of
           None \<Rightarrow> (Some TypeError, c)
         | Some x \<Rightarrow>
             (None, c\<lparr>outgoingContexts :=
                outgoingContexts c @ [Some (x\<lparr>name := qualify (session c) (name x)\<rparr>)]\<rparr>))
      else (None, c\<lparr>outgoingContexts := outgoingContexts c @ [ctx]\<rparr>))"

text \<open>
  Modelled from the spec: \<open>setFollowupEvent_\<close> of the Version Adapter (absent) records
  the event, overwriting any previous one (section 3, FollowupEvent).
\<close>

definition client_setFollowupEvent :: "event_object \<Rightarrow> client \<Rightarrow> result" where
  "client_setFollowupEvent ev c = (None, c\<lparr>followupEvent := Some ev\<rparr>)"

text \<open>
  Modelled from the spec: \<open>sendResponse_\<close> of the Version Adapter (absent) serializes
  the accumulated elements, the followup event and the outgoing contexts and writes
  them to the host response channel (section 4.5), then discards the accumulated
  sequence (section 4.2).
\<close>

definition client_sendResponse :: "client \<Rightarrow> result" where
  "client_sendResponse c =
     (None,
      c\<lparr>response' := (response' c)\<lparr>sent := sent (response' c) @
           [\<lparr>w_messages = responseMessages c, w_followupEvent = followupEvent c,
             w_contexts = outgoingContexts c\<rparr>]\<rparr>,
        responseMessages := []\<rparr>)"

subsection \<open>constructor\<close>

definition WebhookClient :: "options \<Rightarrow> error + client" where
  "WebhookClient opts =
     (case request opts of
        None \<Rightarrow> Inl (Error ''Request can NOT be empty.'')
      | Some req \<Rightarrow>
     (case response opts of
        None \<Rightarrow> Inl (Error ''Response can NOT be empty.'')
      | Some res \<Rightarrow>
          (let this = \<lparr>request' = req, response' = res,
                 agentVersion =
                   (if result (body req) \<noteq> None then Some 1
                    else if queryResult (body req) \<noteq> None then Some 2
                    else None),
                 responseMessages = [], followupEvent = None, outgoingContexts = [],
                 action = None, parameters = None, contexts = None, requestSource = None,
                 query = None, locale' = None, session = None\<rparr>
           in if agentVersion this = Some 2 then Inr (client_processRequest this)
              else if agentVersion this = Some 1 then Inr (client_processRequest this)
              else Inl (Error
                ''Invalid or unknown request type (not a Dialogflow v1 or v2 webhook request).''))))"

subsection \<open>existingSuggestion_ and existingPayload_\<close>

text \<open>\<open>!p || p === PLATFORMS.UNSPECIFIED\<close>\<close>

definition unspecified :: "platforms \<Rightarrow> platform \<Rightarrow> bool" where
  "unspecified P p = (case p of None \<Rightarrow> True | Some s \<Rightarrow> s = [] \<or> s = UNSPECIFIED P)"

text \<open>
  The loops return the first element that matches. The model returns its position in
  the array, which stands for the reference to the object; \<open>None\<close> is undefined.
\<close>

fun existingSuggestion :: "platforms \<Rightarrow> response list \<Rightarrow> platform \<Rightarrow> nat option" where
  "existingSuggestion P [] platform = None"
| "existingSuggestion P (Suggestions rp rs # rest) platform =
     (if unspecified P rp \<and> unspecified P platform then Some 0
      else if platform = rp then Some 0
      else map_option Suc (existingSuggestion P rest platform))"
| "existingSuggestion P (r # rest) platform =
     map_option Suc (existingSuggestion P rest platform)"

fun existingPayload :: "platforms \<Rightarrow> response list \<Rightarrow> platform \<Rightarrow> nat option" where
  "existingPayload P [] platform = None"
| "existingPayload P (Payload rp pl # rest) platform =
     (if unspecified P rp \<and> unspecified P platform then Some 0
      else if platform = rp then Some 0
      else map_option Suc (existingPayload P rest platform))"
| "existingPayload P (r # rest) platform =
     map_option Suc (existingPayload P rest platform)"

subsection \<open>add\<close>

text \<open>
  The argument of \<open>add\<close>: a string, a \<open>RichResponse\<close>, or anything else.
  \<open>first rs\<close> is \<open>rs[0]\<close>.
\<close>

datatype add_arg = AddString string | AddRich response | AddOther

fun first :: "'a list \<Rightarrow> 'a option" where
  "first [] = None"
| "first (x # xs) = Some x"

definition push :: "response \<Rightarrow> client \<Rightarrow> result" where
  "push r c = (None, c\<lparr>responseMessages := responseMessages c @ [r]\<rparr>)"

definition add :: "platforms \<Rightarrow> add_arg \<Rightarrow> client \<Rightarrow> result" where
  "add P arg c =
     (case (case arg of AddString s \<Rightarrow> AddRich (Text s) | _ \<Rightarrow> arg) of
        AddRich (Suggestions platform replies) \<Rightarrow>
          (case existingSuggestion P (responseMessages c) platform of
             Some i \<Rightarrow>
               (case addReply (responseMessages c ! i) (first replies) of
                  Inl e \<Rightarrow> (Some e, c)
                | Inr r \<Rightarrow> (None, c\<lparr>responseMessages := (responseMessages c)[i := r]\<rparr>))
           | None \<Rightarrow> push (Suggestions platform replies) c)
      | AddRich r \<Rightarrow> push r c
      | _ \<Rightarrow> (Some (Error ''unknown response type''), c))"

text \<open>
  A sequence of \<open>add\<close> calls, as \<open>forEach(this.add.bind(this))\<close> makes them: in order,
  and the first error ends the sequence.
\<close>

fun forEach_add :: "platforms \<Rightarrow> add_arg list \<Rightarrow> client \<Rightarrow> result" where
  "forEach_add P [] c = (None, c)"
| "forEach_add P (x # xs) c =
     (case add P x c of
        (Some e, c') \<Rightarrow> (Some e, c')
      | (None, c') \<Rightarrow> forEach_add P xs c')"

subsection \<open>send_\<close>

text \<open>
  The argument of \<open>send_\<close>: undefined, a string, a \<open>RichResponse\<close>, an array, or
  another truthy value. Reading \<open>response.isArray\<close> on an array yields undefined
  (\<open>isArray\<close> is a method of the \<open>Array\<close> constructor, not a property of arrays) unless
  the caller has set such a property on the array: the flag of \<open>ResponseArray\<close>.
\<close>

datatype send_arg =
    NoResponse
  | ResponseString string
  | ResponseRich response
  | ResponseArray bool "add_arg list"
  | ResponseOther

fun truthy_response :: "send_arg \<Rightarrow> bool" where
  "truthy_response NoResponse = False"
| "truthy_response (ResponseString s) = (s \<noteq> [])"
| "truthy_response r = True"

text \<open>The test of lines 203 to 206: the source is given, is not supported and is not "unspecified".\<close>

definition unsupported :: "platforms \<Rightarrow> client \<Rightarrow> bool" where
  "unsupported P c =
     (case requestSource c of
        None \<Rightarrow> False
      | Some s \<Rightarrow> s \<notin> set (SUPPORTED_RICH_MESSAGE_PLATFORMS P) \<and> s \<noteq> UNSPECIFIED P)"

text \<open>
  Lines 212 to 221: for Actions on Google, when there is a first element, it is not a
  \<open>TextResponse\<close> and no payload for Actions on Google exists, \<open>new TextResponse(' ')\<close>
  is put in front.
\<close>

definition leading_text :: "platforms \<Rightarrow> client \<Rightarrow> client" where
  "leading_text P c =
     (if requestSource c = Some (ACTIONS_ON_GOOGLE P)
         \<and> (case responseMessages c of [] \<Rightarrow> False | r # rest \<Rightarrow> \<not> isText r)
         \<and> existingPayload P (responseMessages c) (Some (ACTIONS_ON_GOOGLE P)) = None
      then c\<lparr>responseMessages := Text '' '' # responseMessages c\<rparr>
      else c)"

text \<open>
  \<open>send_\<close>: the platform test, the leading text, then the argument. Without an
  argument (or with the empty string) the responses are sent as they are; a string or
  a \<open>RichResponse\<close> is added first; the members of a value whose \<open>isArray\<close> property is
  truthy are added first, one by one; any other value adds nothing.
\<close>

definition send :: "platforms \<Rightarrow> send_arg \<Rightarrow> client \<Rightarrow> result" where
  "send P arg c =
     (if unsupported P c then (Some (Error ''Platform is not supported.''), c)
      else
        (let c1 = leading_text P c in
         if \<not> truthy_response arg then client_sendResponse c1
         else
           (case (case arg of
                    ResponseString s \<Rightarrow> add P (AddString s) c1
                  | ResponseRich r \<Rightarrow> add P (AddRich r) c1
                  | ResponseArray isArray members \<Rightarrow>
                      (if isArray then forEach_add P members c1 else (None, c1))
                  | _ \<Rightarrow> (None, c1)) of
              (Some e, c2) \<Rightarrow> (Some e, c2)
            | (None, c2) \<Rightarrow> client_sendResponse c2)))"

subsection \<open>handleRequest\<close>

text \<open>
  A promise is modelled by how it settles. A callback runs on the client, mutates it,
  and returns a value, returns a promise, or throws; the state it leaves is the state
  at the time its promise settles.
\<close>

datatype outcome = Fulfilled | Rejected error | Pending

datatype handler_result = ReturnsValue | ReturnsPromise outcome | ThrowsError error

type_synonym callback = "client \<Rightarrow> handler_result \<times> client"

datatype handler =
    Function callback
  | HandlerMap "string option \<rightharpoonup> callback"
  | NotAHandler

text \<open>What \<open>handleRequest\<close> does: it throws, or it returns a promise.\<close>

datatype handled = Throws error | Returns outcome

text \<open>\<open>promise.then(() => this.send_())\<close>\<close>

definition then_send :: "platforms \<Rightarrow> outcome \<Rightarrow> client \<Rightarrow> handled \<times> client" where
  "then_send P promise c =
     (case promise of
        Fulfilled \<Rightarrow>
          (case send P NoResponse c of
             (None, c') \<Rightarrow> (Returns Fulfilled, c')
           | (Some e, c') \<Rightarrow> (Returns (Rejected e), c'))
      | Rejected e \<Rightarrow> (Returns (Rejected e), c)
      | Pending \<Rightarrow> (Returns Pending, c))"

definition call_handler :: "platforms \<Rightarrow> callback \<Rightarrow> client \<Rightarrow> handled \<times> client" where
  "call_handler P f c =
     (case f c of
        (ThrowsError e, c') \<Rightarrow> (Throws e, c')
      | (ReturnsPromise promise, c') \<Rightarrow> then_send P promise c'
      | (ReturnsValue, c') \<Rightarrow> then_send P Fulfilled c')"

definition RESPONSE_CODE_BAD_REQUEST :: nat where
  "RESPONSE_CODE_BAD_REQUEST = 400"

text \<open>
  \<open>handleRequest\<close>. A map's entries are functions, so \<open>handler.get(k)\<close> is truthy
  exactly when the map has an entry for \<open>k\<close>; the key \<open>None\<close> is null.
\<close>

definition handleRequest :: "platforms \<Rightarrow> handler \<Rightarrow> client \<Rightarrow> handled \<times> client" where
  "handleRequest P h c =
     (case h of
        Function f \<Rightarrow> call_handler P f c
      | NotAHandler \<Rightarrow>
          (Returns (Rejected (Error
             ''handleRequest must contain a map of Dialogflow action names to function handlers'')),
           c)
      | HandlerMap m \<Rightarrow>
          (case m (action c) of
             Some f \<Rightarrow> call_handler P f c
           | None \<Rightarrow>
               (case m None of
                  Some f \<Rightarrow> call_handler P f c
                | None \<Rightarrow>
                    (Returns (Rejected (Error ''No handler for requested action'')),
                     c\<lparr>response' :=
                         status (StatusText ''No handler for requested action'')
                           (status (StatusCode RESPONSE_CODE_BAD_REQUEST) (response' c))\<rparr>))))"

subsection \<open>Contexts and the followup event\<close>

definition setContext ::
  "(string option \<Rightarrow> string \<Rightarrow> string) \<Rightarrow> context_arg \<Rightarrow> client \<Rightarrow> result" where
  "setContext qualify arg c =
     (case (case arg of
              ContextString s \<Rightarrow>
                ContextObject \<lparr>arg_name = Some s, arg_lifespan = None, arg_parameters = []\<rparr>
            | _ \<Rightarrow> arg) of
        ContextObject obj \<Rightarrow>
          (case arg_name obj of
             None \<Rightarrow> (Some (Error ''context must be provided and must have a name''), c)
           | Some n \<Rightarrow>
               if n = [] then (Some (Error ''context must be provided and must have a name''), c)
               else client_addContext qualify
                      (Some \<lparr>name = n, lifespanCount = arg_lifespan obj,
                             ctx_parameters = arg_parameters obj\<rparr>) c)
      | _ \<Rightarrow> client_addContext qualify None c)"

definition clearOutgoingContexts :: "client \<Rightarrow> client" where
  "clearOutgoingContexts c = c\<lparr>outgoingContexts := []\<rparr>"

text \<open>
  \<open>outgoingContexts_.filter(keep)\<close> where \<open>keep\<close> reads the name of each entry: reading
  the name of a null entry throws.
\<close>

fun filter_contexts ::
  "(Context \<Rightarrow> bool) \<Rightarrow> Context option list \<Rightarrow> error + Context option list" where
  "filter_contexts keep [] = Inr []"
| "filter_contexts keep (None # rest) = Inl TypeError"
| "filter_contexts keep (Some ctx # rest) =
     (case filter_contexts keep rest of
        Inl e \<Rightarrow> Inl e
      | Inr kept \<Rightarrow> Inr (if keep ctx then Some ctx # kept else kept))"

definition clearContext :: "string \<Rightarrow> client \<Rightarrow> result" where
  "clearContext context c =
     (if agentVersion c = Some 1 then
        (case filter_contexts (\<lambda>ctx. name ctx \<noteq> context) (outgoingContexts c) of
           Inl e \<Rightarrow> (Some e, c)
         | Inr kept \<Rightarrow> (None, c\<lparr>outgoingContexts := kept\<rparr>))
      else if agentVersion c = Some 2 then
        (case filter_contexts (\<lambda>ctx. slice (name ctx) (- int (length context)) \<noteq> context)
                (outgoingContexts c) of
           Inl e \<Rightarrow> (Some e, c)
         | Inr kept \<Rightarrow> (None, c\<lparr>outgoingContexts := kept\<rparr>))
      else (None, c))"

definition getContext :: "string \<Rightarrow> client \<Rightarrow> error + Context option" where
  "getContext contextName c =
     (case contexts c of
        None \<Rightarrow> Inl TypeError
      | Some cs \<Rightarrow> Inr (first (filter (\<lambda>context. name context = contextName) cs)))"

definition setFollowupEvent :: "event_arg \<Rightarrow> client \<Rightarrow> result" where
  "setFollowupEvent event c =
     (case event of
        EventString s \<Rightarrow>
          client_setFollowupEvent \<lparr>event_name = JSString s, event_parameters = None\<rparr> c
      | EventObject ev \<Rightarrow>
          if \<not> typeof_string (event_name ev) \<or> \<not> truthy (event_name ev)
          then (Some (Error ''Followup event must be a string or have a name string''), c)
          else client_setFollowupEvent ev c
      | EventNull \<Rightarrow> (Some TypeError, c))"

subsection \<open>Platform tags and the Suggestions elements of a call sequence\<close>

text \<open>
  Two platform tags name the same platform when both are unspecified (undefined, empty
  or \<open>PLATFORMS.UNSPECIFIED\<close>) or when they are equal: the test of \<open>existingSuggestion_\<close>.
\<close>

definition same_tag :: "platforms \<Rightarrow> platform \<Rightarrow> platform \<Rightarrow> bool" where
  "same_tag P p q = ((unspecified P p \<and> unspecified P q) \<or> p = q)"

fun suggestion_for :: "platforms \<Rightarrow> platform \<Rightarrow> response \<Rightarrow> bool" where
  "suggestion_for P t (Suggestions p rs) = same_tag P p t"
| "suggestion_for P t r = False"

fun payload_for :: "platforms \<Rightarrow> platform \<Rightarrow> response \<Rightarrow> bool" where
  "payload_for P t (Payload p pl) = same_tag P p t"
| "payload_for P t r = False"

text \<open>
  The Suggestions elements for tag \<open>t\<close> among the arguments of a sequence of \<open>add\<close>
  calls, in call order: the platform and the reply list of each.
\<close>

fun added_suggestions ::
  "platforms \<Rightarrow> platform \<Rightarrow> add_arg list \<Rightarrow> (platform \<times> string list) list" where
  "added_suggestions P t [] = []"
| "added_suggestions P t (AddRich (Suggestions p rs) # xs) =
     (if same_tag P p t then (p, rs) # added_suggestions P t xs
      else added_suggestions P t xs)"
| "added_suggestions P t (x # xs) = added_suggestions P t xs"

text \<open>The first reply of each element, in order.\<close>

definition first_replies :: "(platform \<times> string list) list \<Rightarrow> string list" where
  "first_replies later = concat (map (\<lambda>(q, qs). take 1 qs) later)"

text \<open>The element that a sequence of Suggestions elements for one tag is merged into.\<close>

fun merged :: "(platform \<times> string list) list \<Rightarrow> response list" where
  "merged [] = []"
| "merged ((p, rs) # later) = [Suggestions p (rs @ first_replies later)]"

text \<open>
  The arguments \<open>add\<close> takes without an error: a string or an element, a Suggestions
  element with at least one reply.
\<close>

fun accepted :: "add_arg \<Rightarrow> bool" where
  "accepted AddOther = False"
| "accepted (AddRich (Suggestions p rs)) = (rs \<noteq> [])"
| "accepted x = True"

subsection \<open>A sample request\<close>

text \<open>
  The platform names as Dialogflow gives them, and a client as the constructor leaves
  it for a request of the given protocol version and source that carries nothing else.
\<close>

definition dialogflow_platforms :: platforms where
  "dialogflow_platforms =
     \<lparr>UNSPECIFIED = ''PLATFORM_UNSPECIFIED'', ACTIONS_ON_GOOGLE = ''ACTIONS_ON_GOOGLE'',
      SUPPORTED_RICH_MESSAGE_PLATFORMS =
        [''FACEBOOK'', ''SLACK'', ''TELEGRAM'', ''KIK'', ''SKYPE'', ''LINE'', ''VIBER'',
         ''ACTIONS_ON_GOOGLE'']\<rparr>"

definition sample_data :: "string option \<Rightarrow> request_data" where
  "sample_data source =
     \<lparr>rd_action = None, rd_parameters = [], rd_contexts = [], rd_source = source,
      rd_query = None, rd_locale = None, rd_session = None\<rparr>"

definition sample_options :: "nat \<Rightarrow> string option \<Rightarrow> options" where
  "sample_options version source =
     \<lparr>request = Some \<lparr>body =
        \<lparr>result = (if version = 1 then Some (sample_data source) else None),
         queryResult = (if version = 2 then Some (sample_data source) else None)\<rparr>\<rparr>,
      response = Some \<lparr>statusCode = None, sent = []\<rparr>\<rparr>"

definition sample_client :: "nat \<Rightarrow> string option \<Rightarrow> client" where
  "sample_client version source =
     \<lparr>request' = \<lparr>body =
        \<lparr>result = (if version = 1 then Some (sample_data source) else None),
         queryResult = (if version = 2 then Some (sample_data source) else None)\<rparr>\<rparr>,
      response' = \<lparr>statusCode = None, sent = []\<rparr>,
      agentVersion = Some version, responseMessages = [], followupEvent = None,
      outgoingContexts = [], action = None, parameters = Some [], contexts = Some [],
      requestSource = source, query = None, locale' = None, session = None\<rparr>"

definition named :: "string \<Rightarrow> Context" where
  "named n = \<lparr>name = n, lifespanCount = None, ctx_parameters = []\<rparr>"

section \<open>Properties\<close>

subsection \<open>Merging Suggestions elements in add\<close>

lemma same_tag_sym: "same_tag P p q = same_tag P q p"
  by (auto simp: same_tag_def)

lemma same_tag_trans: "same_tag P p q \<Longrightarrow> same_tag P q r \<Longrightarrow> same_tag P p r"
  by (auto simp: same_tag_def)

lemma suggestion_for_cong:
  "same_tag P p t \<Longrightarrow> suggestion_for P t r = suggestion_for P p r"
  by (cases r) (auto simp: same_tag_def)

lemma existingSuggestion_Cons:
  "existingSuggestion P (r # rest) pf =
     (if suggestion_for P pf r then Some 0
      else map_option Suc (existingSuggestion P rest pf))"
  by (cases r) (auto simp: same_tag_def)

text \<open>The lookup finds nothing exactly when no Suggestions element has the tag.\<close>

lemma existingSuggestion_None:
  "(existingSuggestion P msgs pf = None) = (filter (suggestion_for P pf) msgs = [])"
  by (induction msgs) (auto simp: existingSuggestion_Cons)

text \<open>
  What it finds is the first Suggestions element with the tag; its position is within
  the array.
\<close>

lemma existingSuggestion_Some:
  "existingSuggestion P msgs pf = Some i \<Longrightarrow>
   \<exists>front q qs rear. msgs = front @ Suggestions q qs # rear \<and> length front = i
      \<and> same_tag P q pf \<and> filter (suggestion_for P pf) front = []"
proof (induction msgs arbitrary: i)
  case Nil
  then show ?case by simp
next
  case (Cons r rest)
  show ?case
  proof (cases "suggestion_for P pf r")
    case True
    then obtain q qs where r: "r = Suggestions q qs" "same_tag P q pf"
      by (cases r) auto
    have "i = 0" using Cons.prems True by (simp add: existingSuggestion_Cons)
    then show ?thesis using r by (intro exI[of _ "[]"]) auto
  next
    case False
    then obtain j where j: "existingSuggestion P rest pf = Some j" "i = Suc j"
      using Cons.prems by (auto simp: existingSuggestion_Cons)
    from Cons.IH[OF j(1)] obtain front q qs rear where
      "rest = front @ Suggestions q qs # rear" "length front = j" "same_tag P q pf"
      "filter (suggestion_for P pf) front = []" by auto
    then show ?thesis using j(2) False by (intro exI[of _ "r # front"]) auto
  qed
qed

lemma existingSuggestion_in_range:
  "existingSuggestion P msgs pf = Some i \<Longrightarrow> i < length msgs"
  using existingSuggestion_Some[of P msgs pf i] by auto

lemma first_replies_Nil [simp]: "first_replies [] = []"
  by (simp add: first_replies_def)

lemma first_replies_snoc: "first_replies (l @ [(p, rs)]) = first_replies l @ take 1 rs"
  by (simp add: first_replies_def)

lemma first_replies_single:
  "list_all (\<lambda>(q, qs). length qs = 1) later \<Longrightarrow> first_replies later = concat (map snd later)"
  by (induction later) (auto simp: first_replies_def)

lemma merged_snoc:
  "S \<noteq> [] \<Longrightarrow> merged S = [Suggestions q Q] \<Longrightarrow>
   merged (S @ [(p, rs)]) = [Suggestions q (Q @ take 1 rs)]"
  by (cases S) (auto simp: first_replies_snoc)

text \<open>
  One call of \<open>add\<close>: if the Suggestions elements for tag \<open>t\<close> accumulated so far are
  the merge of \<open>S\<close>, then afterwards they are the merge of \<open>S\<close> and the argument.
\<close>

lemma add_step:
  assumes F: "filter (suggestion_for P t) (responseMessages c) = merged S"
    and ok: "accepted x"
  shows "\<exists>c'. add P x c = (None, c')
           \<and> filter (suggestion_for P t) (responseMessages c') =
               merged (S @ added_suggestions P t [x])"
proof (cases x)
  case (AddString s)
  then show ?thesis using F by (simp add: add_def push_def)
next
  case AddOther
  then show ?thesis using ok by simp
next
  case (AddRich r)
  show ?thesis
  proof (cases "\<exists>p rs. r = Suggestions p rs")
    case False
    then have "add P x c = push r c" using AddRich by (cases r) (auto simp: add_def)
    moreover have "\<not> suggestion_for P t r" using False by (cases r) auto
    moreover have "added_suggestions P t [x] = []" using False AddRich by (cases r) auto
    ultimately show ?thesis using F by (simp add: push_def)
  next
    case True
    then obtain p rs where r: "r = Suggestions p rs" by auto
    then obtain r0 rs' where rs: "rs = r0 # rs'" using ok AddRich by (cases rs) auto
    show ?thesis
    proof (cases "existingSuggestion P (responseMessages c) p")
      case None
      then have add: "add P x c = push r c" using AddRich r by (simp add: add_def)
      show ?thesis
      proof (cases "same_tag P p t")
        case same: True
        have "filter (suggestion_for P p) (responseMessages c) = []"
          using None by (simp add: existingSuggestion_None)
        then have "filter (suggestion_for P t) (responseMessages c) = []"
          using suggestion_for_cong[OF same] by (simp cong: filter_cong)
        then have "S = []" using F by (cases S) auto
        then show ?thesis using add same r AddRich F by (simp add: push_def)
      next
        case False
        then show ?thesis using add r AddRich F by (simp add: push_def)
      qed
    next
      case (Some i)
      from existingSuggestion_Some[OF Some] obtain front q qs rear where
        d: "responseMessages c = front @ Suggestions q qs # rear" "length front = i"
           "same_tag P q p" "filter (suggestion_for P p) front = []" by auto
      have nth: "responseMessages c ! i = Suggestions q qs" using d by (simp add: nth_append)
      have upd: "(responseMessages c)[i := y] = front @ y # rear" for y
        using d by (simp add: list_update_append)
      have add: "add P x c =
        (None, c\<lparr>responseMessages := front @ Suggestions q (qs @ [r0]) # rear\<rparr>)"
        using AddRich r rs Some nth upd by (simp add: add_def)
      show ?thesis
      proof (cases "same_tag P p t")
        case same: True
        have front: "filter (suggestion_for P t) front = []"
          using d(4) suggestion_for_cong[OF same] by (simp cong: filter_cong)
        have qt: "same_tag P q t" using d(3) same by (rule same_tag_trans)
        have ne: "S \<noteq> []" using F d(1) qt by (cases S) auto
        moreover have "merged S = Suggestions q qs # filter (suggestion_for P t) rear"
          using F d(1) qt front by simp
        ultimately have rear: "filter (suggestion_for P t) rear = []"
          and m: "merged S = [Suggestions q qs]"
          by (cases S; auto)+
        show ?thesis using add same r rs AddRich front rear qt merged_snoc[OF ne m]
          by simp
      next
        case False
        then have "\<not> same_tag P q t" using d(3) same_tag_trans same_tag_sym by blast
        then show ?thesis using add False r AddRich F d(1) by simp
      qed
    qed
  qed
qed

lemma added_suggestions_append:
  "added_suggestions P t (xs @ ys) = added_suggestions P t xs @ added_suggestions P t ys"
  by (induction P t xs rule: added_suggestions.induct) auto

lemma forEach_add_merged:
  assumes "filter (suggestion_for P t) (responseMessages c) = merged S"
    and "\<forall>x\<in>set xs. accepted x"
  shows "\<exists>c'. forEach_add P xs c = (None, c')
           \<and> filter (suggestion_for P t) (responseMessages c') =
               merged (S @ added_suggestions P t xs)"
  using assms
proof (induction xs arbitrary: c S)
  case Nil
  then show ?case by simp
next
  case (Cons x xs)
  from add_step[OF Cons.prems(1), of x] Cons.prems(2) obtain c1 where
    c1: "add P x c = (None, c1)"
        "filter (suggestion_for P t) (responseMessages c1) = merged (S @ added_suggestions P t [x])"
    by auto
  from Cons.IH[OF c1(2)] Cons.prems(2) obtain c' where
    "forEach_add P xs c1 = (None, c')"
    "filter (suggestion_for P t) (responseMessages c') =
       merged ((S @ added_suggestions P t [x]) @ added_suggestions P t xs)" by auto
  then show ?case using c1(1) added_suggestions_append[of P t "[x]" xs] by simp
qed

text \<open>
  Claim C1, as the code has it. Take a sequence of \<open>add\<close> calls on an empty
  accumulator, each with a string or an element (a Suggestions element with at least
  one reply), among them at least one Suggestions element for the platform tag \<open>t\<close>.
  Every call returns, and the accumulated sequence then holds exactly one Suggestions
  element for \<open>t\<close>: it carries the platform and the replies of the first such element
  added, followed by the first reply of each later one, in call order. \<open>add\<close> passes
  \<open>replies[0]\<close> alone to \<open>addReply_\<close>, so this is the concatenation of all the added
  reply lists when each later element carries exactly one reply.
\<close>

theorem add_merges_suggestions:
  assumes "responseMessages c = []"
    and "list_all accepted xs"
    and "added_suggestions P t xs = (p, rs) # later"
  shows "\<exists>c'. forEach_add P xs c = (None, c')
           \<and> filter (suggestion_for P t) (responseMessages c') =
               [Suggestions p (rs @ first_replies later)]
           \<and> (list_all (\<lambda>(q, qs). length qs = 1) later \<longrightarrow>
                filter (suggestion_for P t) (responseMessages c') =
                  [Suggestions p (concat (map snd ((p, rs) # later)))])"
proof -
  have "filter (suggestion_for P t) (responseMessages c) = merged []"
    using assms(1) by simp
  moreover have "\<forall>x\<in>set xs. accepted x" using assms(2) by (simp add: list_all_iff)
  ultimately obtain c' where c': "forEach_add P xs c = (None, c')"
    "filter (suggestion_for P t) (responseMessages c') = merged ([] @ added_suggestions P t xs)"
    using forEach_add_merged by blast
  then have "filter (suggestion_for P t) (responseMessages c') =
               [Suggestions p (rs @ first_replies later)]"
    using assms(3) by simp
  then show ?thesis using c'(1) first_replies_single[of later] by auto
qed

text \<open>Two quick replies for Facebook around a text: one element, both replies.\<close>

theorem add_merges_suggestions_witness:
  "responseMessages (sample_client 2 None) = []
   \<and> list_all accepted
        [AddRich (Suggestions (Some ''FACEBOOK'') [''yes'']), AddString ''hello'',
         AddRich (Suggestions (Some ''FACEBOOK'') [''no''])]
   \<and> added_suggestions dialogflow_platforms (Some ''FACEBOOK'')
        [AddRich (Suggestions (Some ''FACEBOOK'') [''yes'']), AddString ''hello'',
         AddRich (Suggestions (Some ''FACEBOOK'') [''no''])]
       = [(Some ''FACEBOOK'', [''yes'']), (Some ''FACEBOOK'', [''no''])]
   \<and> (\<exists>c'. forEach_add dialogflow_platforms
               [AddRich (Suggestions (Some ''FACEBOOK'') [''yes'']), AddString ''hello'',
                AddRich (Suggestions (Some ''FACEBOOK'') [''no''])] (sample_client 2 None)
             = (None, c')
          \<and> filter (suggestion_for dialogflow_platforms (Some ''FACEBOOK''))
               (responseMessages c')
             = [Suggestions (Some ''FACEBOOK'') [''yes'', ''no'']])
   \<and> list_all (\<lambda>(q, qs). length qs = 1) [(Some ''FACEBOOK'', [''no''])]
   \<and> concat (map snd [(Some ''FACEBOOK'', [''yes'']), (Some ''FACEBOOK'', [''no''])])
       = [''yes'', ''no'']"
proof -
  let ?xs = "[AddRich (Suggestions (Some ''FACEBOOK'') [''yes'']), AddString ''hello'',
         AddRich (Suggestions (Some ''FACEBOOK'') [''no''])]"
  have h1: "responseMessages (sample_client 2 None) = []" by (simp add: sample_client_def)
  have h2: "list_all accepted ?xs" by simp
  have h3: "added_suggestions dialogflow_platforms (Some ''FACEBOOK'') ?xs
       = (Some ''FACEBOOK'', [''yes'']) # [(Some ''FACEBOOK'', [''no''])]"
    by (simp add: same_tag_def)
  show ?thesis
    using h1 h2 h3 add_merges_suggestions[OF h1 h2 h3]
    by (simp add: first_replies_def)
qed

text \<open>
  The claim as stated fails when a later element carries more than one reply: of
  \<open>[no, maybe]\<close> only \<open>no\<close> is appended.
\<close>

theorem add_drops_later_replies:
  "responseMessages (snd (forEach_add dialogflow_platforms
      [AddRich (Suggestions (Some ''FACEBOOK'') [''yes'']),
       AddRich (Suggestions (Some ''FACEBOOK'') [''no'', ''maybe''])] (sample_client 2 None)))
   = [Suggestions (Some ''FACEBOOK'') [''yes'', ''no'']]
   \<and> responseMessages (snd (forEach_add dialogflow_platforms
      [AddRich (Suggestions (Some ''FACEBOOK'') [''yes'']),
       AddRich (Suggestions (Some ''FACEBOOK'') [''no'', ''maybe''])] (sample_client 2 None)))
   \<noteq> [Suggestions (Some ''FACEBOOK'') ([''yes''] @ [''no'', ''maybe''])]"
  by (simp add: add_def push_def sample_client_def dialogflow_platforms_def unspecified_def)

subsection \<open>clearContext\<close>

text \<open>
  For a name that is not empty, \<open>ctx.name.slice(-context.length) !== context\<close> says that
  the context's name does not end with the name given.
\<close>

lemma slice_suffix:
  assumes "context \<noteq> []"
  shows "(slice n (- int (length context)) = context) = suffix context n"
proof -
  have s: "slice n (- int (length context)) = drop (length n - length context) n"
    using assms by (simp add: slice_def Let_def max_def nat_diff_distrib')
  show ?thesis
  proof
    assume "slice n (- int (length context)) = context"
    then have "drop (length n - length context) n = context" using s by simp
    then show "suffix context n" by (metis suffix_drop)
  next
    assume "suffix context n"
    then obtain front where "n = front @ context" by (auto simp: suffix_def)
    then show "slice n (- int (length context)) = context" using s by simp
  qed
qed

text \<open>For the empty name the slice is the whole name.\<close>

lemma slice_empty: "slice n (- int (length [])) = n"
  by (simp add: slice_def)

lemma filter_contexts_Some:
  "filter_contexts keep (map Some xs) = Inr (map Some (filter keep xs))"
  by (induction xs) auto

text \<open>
  Claim C2, as the code has it. Let the outgoing set hold contexts (no null entry).
  Under protocol version 2, for a name that is not empty, \<open>clearContext\<close> returns and
  keeps exactly the contexts whose name does not end with the name given: it removes
  those whose name ends with it (a name equal to it included) and keeps one whose
  name only contains it, as \<open>foobar\<close> contains \<open>foo\<close>. Under version 1 it keeps
  exactly the contexts whose name differs from the name given.
\<close>

theorem clearContext_removes:
  assumes "outgoingContexts c = map Some ctxs"
  shows "(agentVersion c = Some 2 \<and> context \<noteq> [] \<longrightarrow>
            clearContext context c =
              (None, c\<lparr>outgoingContexts :=
                 map Some (filter (\<lambda>x. \<not> suffix context (name x)) ctxs)\<rparr>))
       \<and> (agentVersion c = Some 1 \<longrightarrow>
            clearContext context c =
              (None, c\<lparr>outgoingContexts :=
                 map Some (filter (\<lambda>x. name x \<noteq> context) ctxs)\<rparr>))"
  using assms by (simp add: clearContext_def filter_contexts_Some slice_suffix)

theorem clearContext_removes_witness:
  "outgoingContexts ((sample_client 2 None)\<lparr>outgoingContexts :=
       [Some (named ''s/contexts/foo''), Some (named ''foobar''), Some (named ''foo'')]\<rparr>)
     = map Some [named ''s/contexts/foo'', named ''foobar'', named ''foo'']
   \<and> agentVersion ((sample_client 2 None)\<lparr>outgoingContexts :=
       [Some (named ''s/contexts/foo''), Some (named ''foobar''), Some (named ''foo'')]\<rparr>)
     = Some 2
   \<and> ''foo'' \<noteq> []
   \<and> clearContext ''foo'' ((sample_client 2 None)\<lparr>outgoingContexts :=
       [Some (named ''s/contexts/foo''), Some (named ''foobar''), Some (named ''foo'')]\<rparr>)
     = (None, (sample_client 2 None)\<lparr>outgoingContexts := [Some (named ''foobar'')]\<rparr>)
   \<and> outgoingContexts ((sample_client 1 None)\<lparr>outgoingContexts :=
       [Some (named ''foo''), Some (named ''s/contexts/foo'')]\<rparr>)
     = map Some [named ''foo'', named ''s/contexts/foo'']
   \<and> agentVersion ((sample_client 1 None)\<lparr>outgoingContexts :=
       [Some (named ''foo''), Some (named ''s/contexts/foo'')]\<rparr>) = Some 1
   \<and> clearContext ''foo'' ((sample_client 1 None)\<lparr>outgoingContexts :=
       [Some (named ''foo''), Some (named ''s/contexts/foo'')]\<rparr>)
     = (None, (sample_client 1 None)\<lparr>outgoingContexts := [Some (named ''s/contexts/foo'')]\<rparr>)"
proof -
  let ?c = "(sample_client 2 None)\<lparr>outgoingContexts :=
       [Some (named ''s/contexts/foo''), Some (named ''foobar''), Some (named ''foo'')]\<rparr>"
  let ?d = "(sample_client 1 None)\<lparr>outgoingContexts :=
       [Some (named ''foo''), Some (named ''s/contexts/foo'')]\<rparr>"
  have h: "outgoingContexts ?c
      = map Some [named ''s/contexts/foo'', named ''foobar'', named ''foo'']"
    by simp
  have v: "agentVersion ?c = Some 2" by (simp add: sample_client_def)
  have h': "outgoingContexts ?d = map Some [named ''foo'', named ''s/contexts/foo'']"
    by simp
  have v': "agentVersion ?d = Some 1" by (simp add: sample_client_def)
  show ?thesis
    using h v h' v' clearContext_removes[OF h, of "''foo''"]
      clearContext_removes[OF h', of "''foo''"]
    by (simp add: named_def suffix_to_prefix)
qed

text \<open>
  The claim as stated fails for the empty name under version 2: every name ends
  with it, and the context named \<open>foo\<close> is kept.
\<close>

theorem clearContext_empty_name_keeps:
  "clearContext [] ((sample_client 2 None)\<lparr>outgoingContexts := [Some (named ''foo'')]\<rparr>)
     = (None, (sample_client 2 None)\<lparr>outgoingContexts := [Some (named ''foo'')]\<rparr>)
   \<and> suffix [] (name (named ''foo''))"
  by (simp add: clearContext_def sample_client_def named_def slice_def)

subsection \<open>handleRequest without a handler\<close>

text \<open>
  Claim C3, as the code has it. When the map has no entry for the action and none
  for null, \<open>handleRequest\<close> returns a rejected promise and sends nothing; the status
  it leaves on the host response is not 400 but the text of the message, because
  \<open>status\<close> is called a second time, with the message, on the handle that the call
  with 400 returns.
\<close>

theorem handleRequest_no_handler:
  assumes "m (action c) = None" and "m None = None"
  shows "handleRequest P (HandlerMap m) c =
           (Returns (Rejected (Error ''No handler for requested action'')),
            c\<lparr>response' := (response' c)\<lparr>statusCode :=
                 Some (StatusText ''No handler for requested action'')\<rparr>\<rparr>)
       \<and> statusCode (response' (snd (handleRequest P (HandlerMap m) c)))
           \<noteq> Some (StatusCode 400)
       \<and> sent (response' (snd (handleRequest P (HandlerMap m) c))) = sent (response' c)"
  using assms by (simp add: handleRequest_def status_def)

theorem handleRequest_no_handler_witness:
  "Map.empty (action (sample_client 2 None)) = (None :: callback option)
   \<and> Map.empty (None :: string option) = (None :: callback option)
   \<and> handleRequest dialogflow_platforms (HandlerMap Map.empty) (sample_client 2 None) =
       (Returns (Rejected (Error ''No handler for requested action'')),
        (sample_client 2 None)\<lparr>response' :=
           \<lparr>statusCode = Some (StatusText ''No handler for requested action''),
            sent = []\<rparr>\<rparr>)"
  using handleRequest_no_handler[of Map.empty "sample_client 2 None" dialogflow_platforms]
  by (simp add: sample_client_def)

subsection \<open>send_\<close>

lemma existingPayload_Cons:
  "existingPayload P (r # rest) pf =
     (if payload_for P pf r then Some 0
      else map_option Suc (existingPayload P rest pf))"
  by (cases r) (auto simp: same_tag_def)

text \<open>The lookup finds nothing exactly when no Payload element has the tag.\<close>

lemma existingPayload_None:
  "(existingPayload P msgs pf = None) = (filter (payload_for P pf) msgs = [])"
  by (induction msgs) (auto simp: existingPayload_Cons)

lemma sent_client_sendResponse:
  "sent (response' (snd (client_sendResponse c))) =
     sent (response' c) @
       [\<lparr>w_messages = responseMessages c, w_followupEvent = followupEvent c,
         w_contexts = outgoingContexts c\<rparr>]"
  by (simp add: client_sendResponse_def)

text \<open>
  Claim C4. Let Actions on Google be a supported platform and the source of the
  request, let no Payload element for it be accumulated, and let \<open>r\<close> be the first
  accumulated element. If \<open>r\<close> is not a Text, \<open>send_\<close> puts the Text \<open>' '\<close> in front
  before anything else, whatever its argument, and without an argument that sequence
  is what is serialized. If \<open>r\<close> is a Text, nothing is put in front and the
  accumulated sequence is serialized as it is.
\<close>

theorem send_leading_text:
  assumes "ACTIONS_ON_GOOGLE P \<in> set (SUPPORTED_RICH_MESSAGE_PLATFORMS P)"
    and "requestSource c = Some (ACTIONS_ON_GOOGLE P)"
    and "existingPayload P (responseMessages c) (Some (ACTIONS_ON_GOOGLE P)) = None"
    and "responseMessages c = r # rest"
  shows "(\<not> isText r \<longrightarrow>
            send P arg c = send P arg (c\<lparr>responseMessages := Text '' '' # r # rest\<rparr>)
          \<and> send P NoResponse c =
              client_sendResponse (c\<lparr>responseMessages := Text '' '' # r # rest\<rparr>)
          \<and> w_messages (last (sent (response' (snd (send P NoResponse c)))))
              = Text '' '' # r # rest)
       \<and> (isText r \<longrightarrow>
            send P NoResponse c = client_sendResponse c
          \<and> w_messages (last (sent (response' (snd (send P NoResponse c))))) = r # rest)"
  using assms
  by (simp add: send_def unsupported_def leading_text_def sent_client_sendResponse)

theorem send_leading_text_witness:
  "ACTIONS_ON_GOOGLE dialogflow_platforms
     \<in> set (SUPPORTED_RICH_MESSAGE_PLATFORMS dialogflow_platforms)
   \<and> requestSource ((sample_client 2 (Some ''ACTIONS_ON_GOOGLE''))
        \<lparr>responseMessages := [Image ''cat.png'']\<rparr>)
       = Some (ACTIONS_ON_GOOGLE dialogflow_platforms)
   \<and> existingPayload dialogflow_platforms [Image ''cat.png'']
       (Some (ACTIONS_ON_GOOGLE dialogflow_platforms)) = None
   \<and> \<not> isText (Image ''cat.png'')
   \<and> w_messages (last (sent (response' (snd (send dialogflow_platforms NoResponse
        ((sample_client 2 (Some ''ACTIONS_ON_GOOGLE''))
           \<lparr>responseMessages := [Image ''cat.png'']\<rparr>))))))
       = [Text '' '', Image ''cat.png'']
   \<and> existingPayload dialogflow_platforms [Text ''hello'', Image ''cat.png'']
       (Some (ACTIONS_ON_GOOGLE dialogflow_platforms)) = None
   \<and> isText (Text ''hello'')
   \<and> w_messages (last (sent (response' (snd (send dialogflow_platforms NoResponse
        ((sample_client 2 (Some ''ACTIONS_ON_GOOGLE''))
           \<lparr>responseMessages := [Text ''hello'', Image ''cat.png'']\<rparr>))))))
       = [Text ''hello'', Image ''cat.png'']"
proof -
  let ?c = "(sample_client 2 (Some ''ACTIONS_ON_GOOGLE''))
              \<lparr>responseMessages := [Image ''cat.png'']\<rparr>"
  let ?d = "(sample_client 2 (Some ''ACTIONS_ON_GOOGLE''))
              \<lparr>responseMessages := [Text ''hello'', Image ''cat.png'']\<rparr>"
  have h1: "ACTIONS_ON_GOOGLE dialogflow_platforms
      \<in> set (SUPPORTED_RICH_MESSAGE_PLATFORMS dialogflow_platforms)"
    by (simp add: dialogflow_platforms_def)
  have h2: "requestSource ?c = Some (ACTIONS_ON_GOOGLE dialogflow_platforms)"
    by (simp add: dialogflow_platforms_def sample_client_def)
  have h3: "existingPayload dialogflow_platforms (responseMessages ?c)
       (Some (ACTIONS_ON_GOOGLE dialogflow_platforms)) = None" by simp
  have h4: "responseMessages ?c = Image ''cat.png'' # []" by simp
  have n: "\<not> isText (Image ''cat.png'')" by simp
  from send_leading_text[OF h1 h2 h3 h4, of NoResponse] n
  have w: "w_messages (last (sent (response' (snd (send dialogflow_platforms NoResponse ?c)))))
      = Text '' '' # Image ''cat.png'' # []" by blast
  have k2: "requestSource ?d = Some (ACTIONS_ON_GOOGLE dialogflow_platforms)"
    by (simp add: dialogflow_platforms_def sample_client_def)
  have k3: "existingPayload dialogflow_platforms (responseMessages ?d)
       (Some (ACTIONS_ON_GOOGLE dialogflow_platforms)) = None" by simp
  have k4: "responseMessages ?d = Text ''hello'' # [Image ''cat.png'']" by simp
  have t: "isText (Text ''hello'')" by simp
  from send_leading_text[OF h1 k2 k3 k4, of NoResponse] t
  have w': "w_messages (last (sent (response' (snd (send dialogflow_platforms NoResponse ?d)))))
      = Text ''hello'' # [Image ''cat.png'']" by blast
  show ?thesis using h1 h2 h3 w k3 w' by simp
qed

text \<open>
  Claim C5, as the code has it. An array given to \<open>send_\<close> has no \<open>isArray\<close>
  property, so the branch that would pass its members to \<open>add\<close> is not taken: the
  call does what the call without an argument does, and for the array \<open>['hello']\<close>
  on a fresh client no element is serialized.
\<close>

theorem send_array_not_added:
  "send P (ResponseArray False members) c = send P NoResponse c
   \<and> sent (response' (snd (send dialogflow_platforms
        (ResponseArray False [AddString ''hello'']) (sample_client 2 None))))
     = [\<lparr>w_messages = [], w_followupEvent = None, w_contexts = []\<rparr>]"
  by (simp add: send_def unsupported_def leading_text_def sample_client_def
      client_sendResponse_def)

text \<open>
  Claim C9. Let Actions on Google be a supported platform and the source of the
  request. With nothing accumulated, \<open>send_\<close> without an argument puts no Text in
  front: the empty sequence is serialized.
\<close>

theorem send_empty:
  assumes "ACTIONS_ON_GOOGLE P \<in> set (SUPPORTED_RICH_MESSAGE_PLATFORMS P)"
    and "requestSource c = Some (ACTIONS_ON_GOOGLE P)"
    and "responseMessages c = []"
  shows "send P NoResponse c = client_sendResponse c
       \<and> w_messages (last (sent (response' (snd (send P NoResponse c))))) = []"
  using assms
  by (simp add: send_def unsupported_def leading_text_def sent_client_sendResponse)

theorem send_empty_witness:
  "ACTIONS_ON_GOOGLE dialogflow_platforms
     \<in> set (SUPPORTED_RICH_MESSAGE_PLATFORMS dialogflow_platforms)
   \<and> requestSource (sample_client 2 (Some ''ACTIONS_ON_GOOGLE''))
       = Some (ACTIONS_ON_GOOGLE dialogflow_platforms)
   \<and> responseMessages (sample_client 2 (Some ''ACTIONS_ON_GOOGLE'')) = []
   \<and> sent (response' (snd (send dialogflow_platforms NoResponse
        (sample_client 2 (Some ''ACTIONS_ON_GOOGLE'')))))
       = [\<lparr>w_messages = [], w_followupEvent = None, w_contexts = []\<rparr>]"
proof -
  let ?c = "sample_client 2 (Some ''ACTIONS_ON_GOOGLE'')"
  have h1: "ACTIONS_ON_GOOGLE dialogflow_platforms
      \<in> set (SUPPORTED_RICH_MESSAGE_PLATFORMS dialogflow_platforms)"
    by (simp add: dialogflow_platforms_def)
  have h2: "requestSource ?c = Some (ACTIONS_ON_GOOGLE dialogflow_platforms)"
    by (simp add: dialogflow_platforms_def sample_client_def)
  have h3: "responseMessages ?c = []" by (simp add: sample_client_def)
  show ?thesis
    using h1 h2 h3 send_empty[OF h1 h2 h3]
    by (simp add: sample_client_def client_sendResponse_def)
qed

subsection \<open>constructor\<close>

lemma agentVersion_processRequest:
  "agentVersion (client_processRequest c) = agentVersion c"
  by (simp add: client_processRequest_def populate_def split: option.splits)

text \<open>
  Claim C6, as the code has it. Without a request handle, or without a response
  handle, construction throws. With both: a payload with a \<open>result\<close> field gives a
  client of protocol version 1; a payload with a \<open>queryResult\<close> field and no \<open>result\<close>
  field gives a client of version 2; a payload with neither field makes construction
  throw.
\<close>

theorem WebhookClient_version:
  "(request opts = None \<longrightarrow> WebhookClient opts = Inl (Error ''Request can NOT be empty.''))
 \<and> (request opts = Some req \<and> response opts = None \<longrightarrow>
       WebhookClient opts = Inl (Error ''Response can NOT be empty.''))
 \<and> (request opts = Some req \<and> response opts = Some res \<longrightarrow>
       (result (body req) \<noteq> None \<longrightarrow>
          (\<exists>c. WebhookClient opts = Inr c \<and> agentVersion c = Some 1))
     \<and> (result (body req) = None \<and> queryResult (body req) \<noteq> None \<longrightarrow>
          (\<exists>c. WebhookClient opts = Inr c \<and> agentVersion c = Some 2))
     \<and> (result (body req) = None \<and> queryResult (body req) = None \<longrightarrow>
          WebhookClient opts = Inl (Error
            ''Invalid or unknown request type (not a Dialogflow v1 or v2 webhook request).'')))"
  by (auto simp: WebhookClient_def Let_def agentVersion_processRequest)

theorem WebhookClient_version_witness:
  "request (sample_options 2 None)
     = Some \<lparr>body = \<lparr>result = None, queryResult = Some (sample_data None)\<rparr>\<rparr>
   \<and> response (sample_options 2 None) = Some \<lparr>statusCode = None, sent = []\<rparr>
   \<and> result \<lparr>result = None, queryResult = Some (sample_data None)\<rparr> = None
   \<and> queryResult \<lparr>result = None, queryResult = Some (sample_data None)\<rparr> \<noteq> None
   \<and> (\<exists>c. WebhookClient (sample_options 2 None) = Inr c \<and> agentVersion c = Some 2)
   \<and> result \<lparr>result = Some (sample_data None), queryResult = None\<rparr> \<noteq> None
   \<and> (\<exists>c. WebhookClient (sample_options 1 None) = Inr c \<and> agentVersion c = Some 1)
   \<and> WebhookClient \<lparr>request = Some \<lparr>body = \<lparr>result = None, queryResult = None\<rparr>\<rparr>,
         response = Some \<lparr>statusCode = None, sent = []\<rparr>\<rparr> = Inl (Error
        ''Invalid or unknown request type (not a Dialogflow v1 or v2 webhook request).'')
   \<and> WebhookClient \<lparr>request = None, response = Some \<lparr>statusCode = None, sent = []\<rparr>\<rparr>
       = Inl (Error ''Request can NOT be empty.'')
   \<and> WebhookClient ((sample_options 1 None)\<lparr>response := None\<rparr>)
       = Inl (Error ''Response can NOT be empty.'')"
  using WebhookClient_version[of "sample_options 2 None"
      "\<lparr>body = \<lparr>result = None, queryResult = Some (sample_data None)\<rparr>\<rparr>"
      "\<lparr>statusCode = None, sent = []\<rparr>"]
    WebhookClient_version[of "sample_options 1 None"
      "\<lparr>body = \<lparr>result = Some (sample_data None), queryResult = None\<rparr>\<rparr>"
      "\<lparr>statusCode = None, sent = []\<rparr>"]
    WebhookClient_version[of
      "\<lparr>request = Some \<lparr>body = \<lparr>result = None, queryResult = None\<rparr>\<rparr>,
        response = Some \<lparr>statusCode = None, sent = []\<rparr>\<rparr>"
      "\<lparr>body = \<lparr>result = None, queryResult = None\<rparr>\<rparr>"
      "\<lparr>statusCode = None, sent = []\<rparr>"]
    WebhookClient_version[of
      "\<lparr>request = None, response = Some \<lparr>statusCode = None, sent = []\<rparr>\<rparr>"]
    WebhookClient_version[of "(sample_options 1 None)\<lparr>response := None\<rparr>"
      "\<lparr>body = \<lparr>result = Some (sample_data None), queryResult = None\<rparr>\<rparr>"]
  by (simp add: sample_options_def)

text \<open>
  The claim as stated fails for a payload that has a \<open>queryResult\<close> field and a
  \<open>result\<close> field as well: the client is of version 1, not 2.
\<close>

theorem WebhookClient_queryResult_not_2:
  "queryResult (body \<lparr>body =
       \<lparr>result = Some (sample_data None), queryResult = Some (sample_data None)\<rparr>\<rparr>) \<noteq> None
   \<and> WebhookClient
        \<lparr>request = Some \<lparr>body =
           \<lparr>result = Some (sample_data None), queryResult = Some (sample_data None)\<rparr>\<rparr>,
         response = Some \<lparr>statusCode = None, sent = []\<rparr>\<rparr>
     = Inr ((sample_client 1 None)\<lparr>request' := \<lparr>body =
          \<lparr>result = Some (sample_data None), queryResult = Some (sample_data None)\<rparr>\<rparr>\<rparr>)
   \<and> agentVersion ((sample_client 1 None)\<lparr>request' := \<lparr>body =
          \<lparr>result = Some (sample_data None), queryResult = Some (sample_data None)\<rparr>\<rparr>\<rparr>)
       \<noteq> Some 2"
  by (simp add: WebhookClient_def Let_def client_processRequest_def populate_def
      sample_client_def sample_data_def)

text \<open>
  Claim C8. Given both handles and a payload that has a \<open>result\<close> field and a
  \<open>queryResult\<close> field, construction succeeds and the client is of protocol version 1;
  a client of version 2 comes only from a payload without a \<open>result\<close> field.
\<close>

theorem WebhookClient_result_first:
  assumes "request opts = Some req" and "response opts = Some res"
  shows "(result (body req) \<noteq> None \<and> queryResult (body req) \<noteq> None \<longrightarrow>
            (\<exists>c. WebhookClient opts = Inr c \<and> agentVersion c = Some 1))
       \<and> (\<forall>c. WebhookClient opts = Inr c \<and> agentVersion c = Some 2 \<longrightarrow>
            result (body req) = None)"
  using assms
  by (auto simp: WebhookClient_def Let_def agentVersion_processRequest split: if_splits)

theorem WebhookClient_result_first_witness:
  "result \<lparr>result = Some (sample_data (Some ''FACEBOOK'')),
           queryResult = Some (sample_data None)\<rparr> \<noteq> None
   \<and> queryResult \<lparr>result = Some (sample_data (Some ''FACEBOOK'')),
           queryResult = Some (sample_data None)\<rparr> \<noteq> None
   \<and> (\<exists>c. WebhookClient
        \<lparr>request = Some \<lparr>body = \<lparr>result = Some (sample_data (Some ''FACEBOOK'')),
           queryResult = Some (sample_data None)\<rparr>\<rparr>,
         response = Some \<lparr>statusCode = None, sent = []\<rparr>\<rparr> = Inr c
        \<and> agentVersion c = Some 1)
   \<and> WebhookClient (sample_options 2 None) = Inr (sample_client 2 None)
   \<and> agentVersion (sample_client 2 None) = Some 2
   \<and> result \<lparr>result = None, queryResult = Some (sample_data None)\<rparr> = None"
  using WebhookClient_result_first[of
     "\<lparr>request = Some \<lparr>body = \<lparr>result = Some (sample_data (Some ''FACEBOOK'')),
           queryResult = Some (sample_data None)\<rparr>\<rparr>,
         response = Some \<lparr>statusCode = None, sent = []\<rparr>\<rparr>"
     "\<lparr>body = \<lparr>result = Some (sample_data (Some ''FACEBOOK'')),
           queryResult = Some (sample_data None)\<rparr>\<rparr>"
     "\<lparr>statusCode = None, sent = []\<rparr>"]
    WebhookClient_result_first[of "sample_options 2 None"
     "\<lparr>body = \<lparr>result = None, queryResult = Some (sample_data None)\<rparr>\<rparr>"
     "\<lparr>statusCode = None, sent = []\<rparr>"]
  by (simp add: WebhookClient_def sample_options_def sample_client_def
      client_processRequest_def populate_def sample_data_def)

text \<open>The sample client is what the constructor builds from the sample options.\<close>

lemma sample_client_constructed:
  "version = 1 \<or> version = 2 \<Longrightarrow>
   WebhookClient (sample_options version source) = Inr (sample_client version source)"
  by (auto simp: WebhookClient_def sample_options_def sample_client_def
      client_processRequest_def populate_def sample_data_def)

subsection \<open>setContext and setFollowupEvent\<close>

text \<open>
  An object without a name, or with the empty name, and the empty string are
  refused, and the client is left as it was.
\<close>

lemma setContext_no_name:
  "arg_name obj = None \<or> arg_name obj = Some [] \<Longrightarrow>
   setContext qualify (ContextObject obj) c =
     (Some (Error ''context must be provided and must have a name''), c)"
  "setContext qualify (ContextString []) c =
     (Some (Error ''context must be provided and must have a name''), c)"
  by (auto simp: setContext_def)

text \<open>
  Claim C7, as the code has it. For null or undefined the test
  \<open>context && !context.name\<close> is false: \<open>setContext\<close> throws nothing of its own and
  hands null to the adapter's \<open>addContext_\<close>. On a version 1 client the call returns
  and the outgoing set has a null entry more.
\<close>

theorem setContext_null_not_refused:
  "setContext qualify ContextNull c = client_addContext qualify None c
   \<and> setContext qualify ContextNull (sample_client 1 None)
       = (None, (sample_client 1 None)\<lparr>outgoingContexts := [None]\<rparr>)"
  by (simp add: setContext_def client_addContext_def sample_client_def)

text \<open>
  Claim C10. \<open>setFollowupEvent\<close> with the empty string checks nothing: it hands the
  event named by the empty string to the adapter, returns, and that event is the
  followup event recorded. With an object whose name is absent, empty or not a
  string it throws, and the client is left as it was.
\<close>

theorem setFollowupEvent_validation:
  "setFollowupEvent (EventString []) c =
     client_setFollowupEvent \<lparr>event_name = JSString [], event_parameters = None\<rparr> c
   \<and> setFollowupEvent (EventString []) c =
     (None, c\<lparr>followupEvent := Some \<lparr>event_name = JSString [], event_parameters = None\<rparr>\<rparr>)
   \<and> (event_name ev = JSUndefined \<or> event_name ev = JSString []
        \<or> \<not> typeof_string (event_name ev)
        \<longrightarrow> setFollowupEvent (EventObject ev) c =
              (Some (Error ''Followup event must be a string or have a name string''), c))"
  by (auto simp: setFollowupEvent_def client_setFollowupEvent_def)

theorem setFollowupEvent_validation_witness:
  "event_name \<lparr>event_name = JSString [], event_parameters = None\<rparr> = JSString []
   \<and> setFollowupEvent (EventObject \<lparr>event_name = JSString [], event_parameters = None\<rparr>)
        (sample_client 2 None)
      = (Some (Error ''Followup event must be a string or have a name string''),
         sample_client 2 None)
   \<and> setFollowupEvent (EventString []) (sample_client 2 None)
      = (None, (sample_client 2 None)\<lparr>followupEvent :=
           Some \<lparr>event_name = JSString [], event_parameters = None\<rparr>\<rparr>)"
  using setFollowupEvent_validation[of "sample_client 2 None"
     "\<lparr>event_name = JSString [], event_parameters = None\<rparr>"]
  by (simp add: client_setFollowupEvent_def)

end
